theory Spec2Isabelle
  imports Main "HOL-Library.Sublist"
begin

section \<open>Process state of app.py\<close>

text \<open>
  The module-level mutable state of app.py: the five Prometheus counters (each
  \<open>Counter.inc()\<close> adds one), the global flag \<open>stop_inference\<close>, and a log of
  the calls made to the Spotify client library, in the order they are made. The
  duration summary \<open>RECOMMENDATION_DURATION\<close> measures wall-clock time and is left
  out.
\<close>

datatype spotify_call =
    ClientConstructed string string
  | SearchCall string
  | RecommendationsCall "string list"

record app_state =
  RECOMMENDATIONS_PROCESSED :: nat
  SUCCESSFUL_RECOMMENDATIONS :: nat
  FAILED_RECOMMENDATIONS :: nat
  USER_INTERACTIONS :: nat
  CANCELLED_RECOMMENDATIONS :: nat
  stop_inference :: bool
  spotify_calls :: "spotify_call list"

text \<open>The state when the module has just been loaded.\<close>

definition initial_state :: app_state where
  "initial_state =
     \<lparr>RECOMMENDATIONS_PROCESSED = 0, SUCCESSFUL_RECOMMENDATIONS = 0,
      FAILED_RECOMMENDATIONS = 0, USER_INTERACTIONS = 0,
      CANCELLED_RECOMMENDATIONS = 0, stop_inference = False, spotify_calls = []\<rparr>"

text \<open>
  Exceptions the code can end with. \<open>NameError\<close> is what reading the undefined
  name \<open>pipe\<close> raises, \<open>IndexError\<close> what \<open>xs[0]\<close> and \<open>xs[-1]\<close> raise on an
  empty list, \<open>ProviderError\<close> stands for anything a provider library raises.
\<close>

datatype py_error = NameError | IndexError | ProviderError

section \<open>The Spotify provider\<close>

text \<open>
  The dictionaries of the provider's answers, with the keys the code reads:
  an artist has \<open>name\<close>; a track has \<open>uri\<close>, \<open>name\<close> and \<open>artists\<close>.
\<close>

record artist_obj =
  artist_name :: string

record track_obj =
  track_uri :: string
  track_title :: string
  track_artists :: "artist_obj list"

text \<open>
  The client object \<open>sp\<close>: \<open>sp.search(q=..., type='track')\<close> gives
  \<open>results['tracks']['items']\<close>, \<open>sp.recommendations(seed_tracks=...)\<close> gives
  the \<open>'tracks'\<close> list; either may raise.
\<close>

record spotify_client =
  sp_search :: "string \<Rightarrow> py_error + track_obj list"
  sp_recommendations :: "string list \<Rightarrow> py_error + track_obj list"

text \<open>Python truthiness of a value that is \<open>None\<close> or a string.\<close>

fun truthy :: "string option \<Rightarrow> bool" where
  "truthy None = False"
| "truthy (Some s) = (s \<noteq> [])"

definition newline :: char where
  "newline = CHR 0x0A"

text \<open>\<open>sep.join(xs)\<close>.\<close>

fun join :: "string \<Rightarrow> string list \<Rightarrow> string" where
  "join sep [] = []"
| "join sep [x] = x"
| "join sep (x # y # ys) = x @ sep @ join sep (y # ys)"

text \<open>
  The list comprehension of line 62:
  \<open>[f"{track['name']} by {track['artists'][0]['name']}" for track in recommendations]\<close>.
  It raises IndexError at the first track without an artist.
\<close>

fun recommendation_list :: "track_obj list \<Rightarrow> py_error + string list" where
  "recommendation_list [] = Inr []"
| "recommendation_list (track # rest) =
     (case track_artists track of
        [] \<Rightarrow> Inl IndexError
      | a # _ \<Rightarrow>
          (case recommendation_list rest of
             Inl e \<Rightarrow> Inl e
           | Inr entries \<Rightarrow> Inr ((track_title track @ '' by '' @ artist_name a) # entries)))"

definition log_call :: "spotify_call \<Rightarrow> app_state \<Rightarrow> app_state" where
  "log_call c s = s\<lparr>spotify_calls := spotify_calls s @ [c]\<rparr>"

definition inc_failed :: "app_state \<Rightarrow> app_state" where
  "inc_failed s = s\<lparr>FAILED_RECOMMENDATIONS := FAILED_RECOMMENDATIONS s + 1\<rparr>"

definition inc_successful :: "app_state \<Rightarrow> app_state" where
  "inc_successful s = s\<lparr>SUCCESSFUL_RECOMMENDATIONS := SUCCESSFUL_RECOMMENDATIONS s + 1\<rparr>"

definition inc_processed :: "app_state \<Rightarrow> app_state" where
  "inc_processed s = s\<lparr>RECOMMENDATIONS_PROCESSED := RECOMMENDATIONS_PROCESSED s + 1\<rparr>"

definition inc_interactions :: "app_state \<Rightarrow> app_state" where
  "inc_interactions s = s\<lparr>USER_INTERACTIONS := USER_INTERACTIONS s + 1\<rparr>"

definition inc_cancelled :: "app_state \<Rightarrow> app_state" where
  "inc_cancelled s = s\<lparr>CANCELLED_RECOMMENDATIONS := CANCELLED_RECOMMENDATIONS s + 1\<rparr>"

text \<open>
  \<open>spotify_rec\<close> (lines 25-67). \<open>spotipy\<close> is the library: given the two
  credentials it builds the client. The result is the returned text (\<open>Inr\<close>) or the
  exception the call ends with (\<open>Inl\<close>), and the state after the call. Past the
  test of line 39 both credentials are non-empty strings, so the last case of the
  case distinction below is never taken.
\<close>

definition spotify_rec ::
  "(string \<Rightarrow> string \<Rightarrow> spotify_client) \<Rightarrow> string \<Rightarrow> string \<Rightarrow>
   string option \<Rightarrow> string option \<Rightarrow> app_state \<Rightarrow> (py_error + string) \<times> app_state" where
  "spotify_rec spotipy track_name artist client_id client_secret s =
     (if \<not> truthy client_id \<or> \<not> truthy client_secret then
        (Inr ''Please provide Spotify API credentials.'', inc_failed s)
      else
        (case (client_id, client_secret) of
           (Some cid, Some csecret) \<Rightarrow>
             (let sp = spotipy cid csecret;
                  s1 = log_call (ClientConstructed cid csecret) s;
                  q = ''track:'' @ track_name @ '' artist:'' @ artist;
                  s2 = log_call (SearchCall q) s1
              in case sp_search sp q of
                   Inl e \<Rightarrow> (Inl e, s2)
                 | Inr [] \<Rightarrow>
                     (Inr ''No tracks found for the given track name and artist.'', inc_failed s2)
                 | Inr (item # _) \<Rightarrow>
                     (let seed = [track_uri item];
                          s3 = log_call (RecommendationsCall seed) s2
                      in case sp_recommendations sp seed of
                           Inl e \<Rightarrow> (Inl e, s3)
                         | Inr recommendations \<Rightarrow>
                             (if recommendations = [] then
                                (Inr ''No recommendations found.'', inc_failed s3)
                              else
                                (case recommendation_list recommendations of
                                   Inl e \<Rightarrow> (Inl e, s3)
                                 | Inr entries \<Rightarrow>
                                     (Inr (join [newline] entries),
                                      inc_processed (inc_successful s3))))))
         | _ \<Rightarrow> (Inr ''Please provide Spotify API credentials.'', inc_failed s)))"

section \<open>Cancellation\<close>

text \<open>\<open>cancel_inference\<close> (lines 163-166): \<open>stop_inference = True\<close>.\<close>

definition cancel_inference :: "app_state \<Rightarrow> app_state" where
  "cancel_inference s = s\<lparr>stop_inference := True\<rparr>"

text \<open>
  The presentation layer may call \<open>cancel_inference\<close> at any moment while the
  generator of \<open>respond\<close> is suspended or waits for its next chunk. \<open>cancel_at i\<close>
  says whether it did so before the \<open>i\<close>-th check of the flag (counted from 0,
  since the reset at the start of the call).
\<close>

definition arrive :: "(nat \<Rightarrow> bool) \<Rightarrow> nat \<Rightarrow> app_state \<Rightarrow> app_state" where
  "arrive cancel_at i s = (if cancel_at i then cancel_inference s else s)"

section \<open>The conversation\<close>

text \<open>A message dictionary \<open>{"role": ..., "content": ...}\<close>.\<close>

record message =
  role :: string
  content :: string

text \<open>
  A turn of the chat history: the pair (user text, assistant text); either side
  may be \<open>None\<close>. A snapshot is a history.
\<close>

type_synonym chat_turn = "string option \<times> string option"

text \<open>\<open>if v: messages.append({"role": r, "content": v})\<close>.\<close>

fun append_if_truthy :: "string \<Rightarrow> string option \<Rightarrow> message list \<Rightarrow> message list" where
  "append_if_truthy r None messages = messages"
| "append_if_truthy r (Some v) messages =
     (if v \<noteq> [] then messages @ [\<lparr>role = r, content = v\<rparr>] else messages)"

text \<open>The loop of lines 111-115 over the history.\<close>

fun extend_messages :: "message list \<Rightarrow> chat_turn list \<Rightarrow> message list" where
  "extend_messages messages [] = messages"
| "extend_messages messages (val # rest) =
     extend_messages
       (append_if_truthy ''assistant'' (snd val)
          (append_if_truthy ''user'' (fst val) messages))
       rest"

definition apostrophe :: char where
  "apostrophe = CHR 0x27"

text \<open>The f-string of line 117.\<close>

definition user_message :: "string \<Rightarrow> string \<Rightarrow> string \<Rightarrow> string" where
  "user_message track_name artist recommendations =
     ''I like '' @ [apostrophe] @ track_name @ [apostrophe] @ '' by '' @ artist
     @ ''. Here are some Spotify recommendations:'' @ [newline] @ recommendations
     @ [newline, newline]
     @ ''Can you tell me more about these songs and suggest why I might enjoy them?''"

text \<open>Lines 110-118: the message list handed to the generation backend.\<close>

definition build_messages ::
  "string \<Rightarrow> chat_turn list \<Rightarrow> string \<Rightarrow> string \<Rightarrow> string \<Rightarrow> message list" where
  "build_messages system_message history track_name artist recommendations =
     (let messages = [\<lparr>role = ''system'', content = system_message\<rparr>];
          messages = extend_messages messages history
      in messages @ [\<lparr>role = ''user'', content = user_message track_name artist recommendations\<rparr>])"

text \<open>The f-string of line 120: the initial response text.\<close>

definition response_header :: "string \<Rightarrow> string \<Rightarrow> string \<Rightarrow> string" where
  "response_header track_name artist recommendations =
     ''**Spotify Recommendations based on '' @ [apostrophe] @ track_name @ [apostrophe]
     @ '' by '' @ artist @ '':**'' @ [newline] @ recommendations @ [newline, newline]"

definition cancel_marker :: string where
  "cancel_marker = [newline, newline] @ ''*Inference cancelled.*''"

definition not_configured_notice :: string where
  "not_configured_notice =
     ''*Error: Local model not configured. Please uncomment the torch/transformers imports and pipeline initialization in app.py, or uncheck 'Use Local Model'.*''"

text \<open>What every \<open>yield\<close> produces: \<open>history + [(f"{track_name} by {artist}", response)]\<close>.\<close>

definition snapshot :: "chat_turn list \<Rightarrow> string \<Rightarrow> string \<Rightarrow> string \<Rightarrow> chat_turn list" where
  "snapshot history track_name artist response =
     history @ [(Some (track_name @ '' by '' @ artist), Some response)]"

section \<open>The generation backends\<close>

text \<open>
  A chunk of the streaming API: the code reads \<open>message_chunk.choices[0].delta.content\<close>,
  which is a string or \<open>None\<close>. An output of the local pipeline: the code reads
  \<open>output['generated_text'][-1]['content']\<close>, the content of a message, which is
  a string.
\<close>

record choice_obj =
  delta_content :: "string option"

record chunk_obj =
  choices :: "choice_obj list"

record output_obj =
  generated_text :: "message list"

text \<open>How the generator ends: it returns, or an exception leaves it.\<close>

datatype ending = Returned | Raised py_error

text \<open>
  The loop of lines 147-160 over the stream of \<open>client.chat_completion\<close>. An
  \<open>Inl\<close> item is the stream raising when asked for its next chunk. The result is
  the snapshots yielded, how the generator ends, and the state then.
\<close>

fun api_stream ::
  "chat_turn list \<Rightarrow> string \<Rightarrow> string \<Rightarrow> (nat \<Rightarrow> bool) \<Rightarrow> nat \<Rightarrow> string \<Rightarrow>
   (py_error + chunk_obj) list \<Rightarrow> app_state \<Rightarrow> chat_turn list list \<times> ending \<times> app_state" where
  "api_stream history track_name artist cancel_at i response [] s = ([], Returned, s)"
| "api_stream history track_name artist cancel_at i response (item # rest) s =
     (let s1 = arrive cancel_at i s in
      case item of
        Inl e \<Rightarrow> ([], Raised e, s1)
      | Inr message_chunk \<Rightarrow>
          if stop_inference s1 then
            (let s2 = inc_cancelled s1;
                 response = response @ cancel_marker
             in ([snapshot history track_name artist response], Returned, s2))
          else
            (case choices message_chunk of
               [] \<Rightarrow> ([], Raised IndexError, s1)
             | c # _ \<Rightarrow>
                 (let token = delta_content c;
                      response = (if truthy token
                                  then (case token of Some t \<Rightarrow> response @ t | None \<Rightarrow> response)
                                  else response)
                  in case api_stream history track_name artist cancel_at (Suc i) response rest s1 of
                       (snaps, e, s') \<Rightarrow>
                         (snapshot history track_name artist response # snaps, e, s'))))"

text \<open>
  The loop of lines 126-138 over the outputs of the local pipeline. The token is
  appended without a test.
\<close>

fun local_stream ::
  "chat_turn list \<Rightarrow> string \<Rightarrow> string \<Rightarrow> (nat \<Rightarrow> bool) \<Rightarrow> nat \<Rightarrow> string \<Rightarrow>
   output_obj list \<Rightarrow> app_state \<Rightarrow> chat_turn list list \<times> ending \<times> app_state" where
  "local_stream history track_name artist cancel_at i response [] s = ([], Returned, s)"
| "local_stream history track_name artist cancel_at i response (output # rest) s =
     (let s1 = arrive cancel_at i s in
      if stop_inference s1 then
        (let s2 = inc_cancelled s1;
             response = response @ cancel_marker
         in ([snapshot history track_name artist response], Returned, s2))
      else
        (case generated_text output of
           [] \<Rightarrow> ([], Raised IndexError, s1)
         | m # ms \<Rightarrow>
             (let token = content (last (m # ms));
                  response = response @ token
              in case local_stream history track_name artist cancel_at (Suc i) response rest s1 of
                   (snaps, e, s') \<Rightarrow>
                     (snapshot history track_name artist response # snaps, e, s'))))"

text \<open>The handler of lines 139-144 (\<open>except NameError\<close>).\<close>

definition local_not_configured ::
  "chat_turn list \<Rightarrow> string \<Rightarrow> string \<Rightarrow> string \<Rightarrow> app_state \<Rightarrow>
   chat_turn list list \<times> ending \<times> app_state" where
  "local_not_configured history track_name artist response s =
     (let s1 = inc_failed s;
          response = response @ not_configured_notice
      in ([snapshot history track_name artist response], Returned, s1))"

text \<open>
  \<open>respond\<close> (lines 75-160), iterated to its end. Besides the arguments of the
  Python function it takes what the module refers to: the Spotify library, the
  streaming call \<open>client.chat_completion\<close>, the name \<open>pipe\<close> (\<open>None\<close> when the
  module does not define it, as in the source as it stands) and the moments at which
  the user cancels. A \<open>NameError\<close> leaving the pipeline call is caught by the same
  handler as the undefined name.
\<close>

definition respond ::
  "(string \<Rightarrow> string \<Rightarrow> spotify_client) \<Rightarrow>
   (message list \<Rightarrow> int \<Rightarrow> (py_error + chunk_obj) list) \<Rightarrow>
   (message list \<Rightarrow> int \<Rightarrow> py_error + output_obj list) option \<Rightarrow>
   (nat \<Rightarrow> bool) \<Rightarrow>
   string \<Rightarrow> string \<Rightarrow> chat_turn list option \<Rightarrow> string \<Rightarrow> int \<Rightarrow> bool \<Rightarrow>
   string option \<Rightarrow> string option \<Rightarrow> app_state \<Rightarrow>
   chat_turn list list \<times> ending \<times> app_state" where
  "respond spotipy chat_completion pipe cancel_at
     track_name artist history system_message max_tokens use_local_model
     client_id client_secret s =
     (let s1 = s\<lparr>stop_inference := False\<rparr>;
          s2 = inc_interactions s1;
          history = (case history of None \<Rightarrow> [] | Some h \<Rightarrow> h)
      in case spotify_rec spotipy track_name artist client_id client_secret s2 of
           (Inl e, s3) \<Rightarrow> ([], Raised e, s3)
         | (Inr recommendations, s3) \<Rightarrow>
             (let messages = build_messages system_message history track_name artist recommendations;
                  response = response_header track_name artist recommendations
              in if use_local_model then
                   (case pipe of
                      None \<Rightarrow> local_not_configured history track_name artist response s3
                    | Some p \<Rightarrow>
                        (case p messages max_tokens of
                           Inl e \<Rightarrow>
                             (if e = NameError
                              then local_not_configured history track_name artist response s3
                              else ([], Raised e, s3))
                         | Inr outputs \<Rightarrow>
                             local_stream history track_name artist cancel_at 0 response outputs s3))
                 else
                   api_stream history track_name artist cancel_at 0 response
                     (chat_completion messages max_tokens) s3))"

section \<open>Sample collaborators\<close>

text \<open>Concrete providers, used to run the definitions on examples.\<close>

definition sample_tracks :: "track_obj list" where
  "sample_tracks =
     [\<lparr>track_uri = ''u1'', track_title = ''Perfect'',
       track_artists = [\<lparr>artist_name = ''Ed Sheeran''\<rparr>, \<lparr>artist_name = ''Guest''\<rparr>]\<rparr>,
      \<lparr>track_uri = ''u2'', track_title = ''Halo'',
       track_artists = [\<lparr>artist_name = ''Beyonce''\<rparr>]\<rparr>,
      \<lparr>track_uri = ''u1'', track_title = ''Perfect'',
       track_artists = [\<lparr>artist_name = ''Ed Sheeran''\<rparr>]\<rparr>]"

definition sample_spotipy :: "string \<Rightarrow> string \<Rightarrow> spotify_client" where
  "sample_spotipy cid csecret =
     \<lparr>sp_search = (\<lambda>q. Inr [\<lparr>track_uri = ''seed'', track_title = ''Shape of You'',
                               track_artists = [\<lparr>artist_name = ''Ed Sheeran''\<rparr>]\<rparr>]),
      sp_recommendations = (\<lambda>seeds. Inr sample_tracks)\<rparr>"

definition no_match_spotipy :: "string \<Rightarrow> string \<Rightarrow> spotify_client" where
  "no_match_spotipy cid csecret =
     \<lparr>sp_search = (\<lambda>q. Inr []), sp_recommendations = (\<lambda>seeds. Inr sample_tracks)\<rparr>"

definition failing_spotipy :: "string \<Rightarrow> string \<Rightarrow> spotify_client" where
  "failing_spotipy cid csecret =
     \<lparr>sp_search = (\<lambda>q. Inl ProviderError), sp_recommendations = (\<lambda>seeds. Inr [])\<rparr>"

definition no_artist_spotipy :: "string \<Rightarrow> string \<Rightarrow> spotify_client" where
  "no_artist_spotipy cid csecret =
     \<lparr>sp_search = (\<lambda>q. Inr [\<lparr>track_uri = ''seed'', track_title = ''Shape of You'',
                               track_artists = [\<lparr>artist_name = ''Ed Sheeran''\<rparr>]\<rparr>]),
      sp_recommendations =
        (\<lambda>seeds. Inr [\<lparr>track_uri = ''u9'', track_title = ''Untitled'', track_artists = []\<rparr>])\<rparr>"

definition text_chunk :: "string option \<Rightarrow> py_error + chunk_obj" where
  "text_chunk t = Inr \<lparr>choices = [\<lparr>delta_content = t\<rparr>]\<rparr>"

definition sample_chat_completion :: "message list \<Rightarrow> int \<Rightarrow> (py_error + chunk_obj) list" where
  "sample_chat_completion messages max_tokens =
     [text_chunk (Some ''Great''), text_chunk None, text_chunk (Some '' picks''),
      text_chunk (Some []), text_chunk (Some ''!'')]"

definition sample_pipe :: "message list \<Rightarrow> int \<Rightarrow> py_error + output_obj list" where
  "sample_pipe messages max_tokens =
     Inr [\<lparr>generated_text = messages @ [\<lparr>role = ''assistant'', content = ''Great picks!''\<rparr>]\<rparr>]"

definition never :: "nat \<Rightarrow> bool" where
  "never i = False"

definition at_step :: "nat \<Rightarrow> nat \<Rightarrow> bool" where
  "at_step k i = (i = k)"

section \<open>Reference formulations\<close>

text \<open>
  The messages one turn of the history contributes, in the words of the
  specification: a user message for a non-empty user side, then an assistant
  message for a non-empty assistant side; an empty or absent side contributes
  nothing.
\<close>

fun side_message :: "string \<Rightarrow> string option \<Rightarrow> message list" where
  "side_message r None = []"
| "side_message r (Some v) = (if v = [] then [] else [\<lparr>role = r, content = v\<rparr>])"

definition turn_messages :: "chat_turn \<Rightarrow> message list" where
  "turn_messages turn = side_message ''user'' (fst turn) @ side_message ''assistant'' (snd turn)"

text \<open>
  The entry of one recommended track, in the words of the specification: title,
  the word "by", and the name of the first-listed artist.
\<close>

definition rendered_entry :: "track_obj \<Rightarrow> string" where
  "rendered_entry track = track_title track @ '' by '' @ artist_name (hd (track_artists track))"

text \<open>
  The three failure cases of the lookup, in the words of the specification:
  missing credentials, no track match, empty recommendation set.
\<close>

definition lookup_failure ::
  "(string \<Rightarrow> string \<Rightarrow> spotify_client) \<Rightarrow> string \<Rightarrow> string \<Rightarrow>
   string option \<Rightarrow> string option \<Rightarrow> bool" where
  "lookup_failure spotipy track_name artist client_id client_secret =
     (case (client_id, client_secret) of
        (Some cid, Some csecret) \<Rightarrow>
          cid = [] \<or> csecret = [] \<or>
          (case sp_search (spotipy cid csecret) (''track:'' @ track_name @ '' artist:'' @ artist) of
             Inl e \<Rightarrow> False
           | Inr [] \<Rightarrow> True
           | Inr (item # _) \<Rightarrow>
               sp_recommendations (spotipy cid csecret) [track_uri item] = Inr [])
      | _ \<Rightarrow> True)"

text \<open>A sequence of lookups, each with the provider as it answers at that time.\<close>

fun run_lookups ::
  "((string \<Rightarrow> string \<Rightarrow> spotify_client) \<times> string \<times> string \<times> string option \<times> string option) list
   \<Rightarrow> app_state \<Rightarrow> app_state" where
  "run_lookups [] s = s"
| "run_lookups ((spotipy, track_name, artist, client_id, client_secret) # rest) s =
     run_lookups rest (snd (spotify_rec spotipy track_name artist client_id client_secret s))"

section \<open>Auxiliary facts\<close>

lemma recommendation_list_eq:
  "recommendation_list recs =
     (if \<forall>t \<in> set recs. track_artists t \<noteq> [] then Inr (map rendered_entry recs)
      else Inl IndexError)"
  by (induction recs) (auto simp: rendered_entry_def split: list.splits)

lemma extend_messages_eq:
  "extend_messages messages history = messages @ concat (map turn_messages history)"
proof (induction history arbitrary: messages)
  case Nil
  show ?case by simp
next
  case (Cons val rest)
  have step: "append_if_truthy ''assistant'' (snd val) (append_if_truthy ''user'' (fst val) messages)
                = messages @ turn_messages val"
    by (cases "fst val"; cases "snd val") (simp_all add: turn_messages_def)
  show ?case
    by (simp add: Cons.IH step)
qed

lemma turn_messages_not_system:
  "filter (\<lambda>m. role m = ''system'') (turn_messages turn) = []"
  by (cases "fst turn"; cases "snd turn") (simp_all add: turn_messages_def)

lemma length_side_message:
  "length (side_message r v) = (if truthy v then 1 else 0)"
  by (cases v) simp_all

lemma history_not_system:
  "filter (\<lambda>m. role m = ''system'') (concat (map turn_messages history)) = []"
  by (induction history) (simp_all add: turn_messages_not_system)

lemma arrive_counters:
  "RECOMMENDATIONS_PROCESSED (arrive cancel_at i s) = RECOMMENDATIONS_PROCESSED s"
  "SUCCESSFUL_RECOMMENDATIONS (arrive cancel_at i s) = SUCCESSFUL_RECOMMENDATIONS s"
  "FAILED_RECOMMENDATIONS (arrive cancel_at i s) = FAILED_RECOMMENDATIONS s"
  "USER_INTERACTIONS (arrive cancel_at i s) = USER_INTERACTIONS s"
  "CANCELLED_RECOMMENDATIONS (arrive cancel_at i s) = CANCELLED_RECOMMENDATIONS s"
  by (simp_all add: arrive_def cancel_inference_def)

lemma api_stream_interactions:
  "USER_INTERACTIONS (snd (snd (api_stream history track_name artist cancel_at i response items s)))
     = USER_INTERACTIONS s"
proof (induction items arbitrary: i response s)
  case Nil
  show ?case by simp
next
  case (Cons item rest)
  show ?case
    by (cases item)
       (auto simp: Let_def arrive_counters inc_cancelled_def Cons.IH
             split: list.splits prod.splits
             dest: arg_cong [where f = "\<lambda>r. USER_INTERACTIONS (snd (snd r))"])
qed

lemma local_stream_interactions:
  "USER_INTERACTIONS (snd (snd (local_stream history track_name artist cancel_at i response outputs s)))
     = USER_INTERACTIONS s"
proof (induction outputs arbitrary: i response s)
  case Nil
  show ?case by simp
next
  case (Cons out rest)
  show ?case
    by (auto simp: Let_def arrive_counters inc_cancelled_def Cons.IH
             split: list.splits prod.splits
             dest: arg_cong [where f = "\<lambda>r. USER_INTERACTIONS (snd (snd r))"])
qed

lemma spotify_rec_interactions:
  "USER_INTERACTIONS (snd (spotify_rec spotipy track_name artist client_id client_secret s))
     = USER_INTERACTIONS s"
  by (auto simp: spotify_rec_def Let_def log_call_def inc_failed_def inc_successful_def
                 inc_processed_def
           split: option.splits sum.splits list.splits)

lemma spotify_rec_lockstep:
  "(RECOMMENDATIONS_PROCESSED (snd (spotify_rec spotipy track_name artist client_id client_secret s))
      = RECOMMENDATIONS_PROCESSED s + 1
    \<and> SUCCESSFUL_RECOMMENDATIONS (snd (spotify_rec spotipy track_name artist client_id client_secret s))
      = SUCCESSFUL_RECOMMENDATIONS s + 1)
   \<or> (RECOMMENDATIONS_PROCESSED (snd (spotify_rec spotipy track_name artist client_id client_secret s))
      = RECOMMENDATIONS_PROCESSED s
    \<and> SUCCESSFUL_RECOMMENDATIONS (snd (spotify_rec spotipy track_name artist client_id client_secret s))
      = SUCCESSFUL_RECOMMENDATIONS s)"
  by (auto simp: spotify_rec_def Let_def log_call_def inc_failed_def inc_successful_def
                 inc_processed_def
           split: option.splits sum.splits list.splits)

lemma run_lookups_lockstep:
  "RECOMMENDATIONS_PROCESSED s = SUCCESSFUL_RECOMMENDATIONS s \<Longrightarrow>
   RECOMMENDATIONS_PROCESSED (run_lookups calls s) = SUCCESSFUL_RECOMMENDATIONS (run_lookups calls s)"
proof (induction calls arbitrary: s)
  case Nil
  then show ?case by simp
next
  case (Cons call rest)
  obtain spotipy track_name artist client_id client_secret
    where call: "call = (spotipy, track_name, artist, client_id, client_secret)"
    by (cases call) auto
  have "RECOMMENDATIONS_PROCESSED (snd (spotify_rec spotipy track_name artist client_id client_secret s))
          = SUCCESSFUL_RECOMMENDATIONS (snd (spotify_rec spotipy track_name artist client_id client_secret s))"
    using spotify_rec_lockstep [of spotipy track_name artist client_id client_secret s] Cons.prems
    by auto
  then show ?case
    by (simp add: call Cons.IH)
qed

lemma run_lookups_bound:
  "RECOMMENDATIONS_PROCESSED (run_lookups calls s) \<le> RECOMMENDATIONS_PROCESSED s + length calls"
proof (induction calls arbitrary: s)
  case Nil
  show ?case by simp
next
  case (Cons call rest)
  obtain spotipy track_name artist client_id client_secret
    where call: "call = (spotipy, track_name, artist, client_id, client_secret)"
    by (cases call) auto
  have "RECOMMENDATIONS_PROCESSED (snd (spotify_rec spotipy track_name artist client_id client_secret s))
          \<le> RECOMMENDATIONS_PROCESSED s + 1"
    using spotify_rec_lockstep [of spotipy track_name artist client_id client_secret s] by auto
  moreover have "RECOMMENDATIONS_PROCESSED (run_lookups (call # rest) s)
          \<le> RECOMMENDATIONS_PROCESSED (snd (spotify_rec spotipy track_name artist client_id client_secret s))
             + length rest"
    by (simp add: call Cons.IH)
  ultimately show ?case by simp
qed





section \<open>Properties of the lookup\<close>

text \<open>
  C2. When client_id or client_secret is empty or None, \<open>spotify_rec\<close> returns the
  text "Please provide Spotify API credentials.", adds one to the failure counter
  and changes nothing else: no client is built and no provider call is logged,
  whatever the library \<open>spotipy\<close> would have done.
\<close>

theorem spotify_rec_missing_credentials:
  assumes "\<not> truthy client_id \<or> \<not> truthy client_secret"
  shows "spotify_rec spotipy track_name artist client_id client_secret s =
           (Inr ''Please provide Spotify API credentials.'',
            s\<lparr>FAILED_RECOMMENDATIONS := FAILED_RECOMMENDATIONS s + 1\<rparr>)
         \<and> spotify_calls (snd (spotify_rec spotipy track_name artist client_id client_secret s))
             = spotify_calls s"
  using assms by (simp add: spotify_rec_def inc_failed_def)

theorem spotify_rec_missing_credentials_witness:
  "truthy (Some []) = False
   \<and> spotify_rec sample_spotipy ''Shape of You'' ''Ed Sheeran'' (Some []) (Some ''secret'')
        initial_state =
       (Inr ''Please provide Spotify API credentials.'',
        initial_state\<lparr>FAILED_RECOMMENDATIONS := FAILED_RECOMMENDATIONS initial_state + 1\<rparr>)
   \<and> spotify_calls (snd (spotify_rec sample_spotipy ''Shape of You'' ''Ed Sheeran'' (Some [])
         (Some ''secret'') initial_state)) = spotify_calls initial_state"
  using spotify_rec_missing_credentials
          [of "Some []" "Some ''secret''" sample_spotipy "''Shape of You''" "''Ed Sheeran''"
              initial_state]
  by simp

text \<open>
  C5. When both credentials are non-empty, the search finds a track and the
  provider returns a non-empty recommendation list in which every track lists an
  artist, \<open>spotify_rec\<close> returns the entries "title by first-listed artist" of
  the recommended tracks, one per track, in the provider's order, repeated tracks
  repeated, joined by newlines. (A recommended track without any artist makes the
  call end with IndexError instead.)
\<close>

theorem spotify_rec_success_text:
  assumes "client_id = Some cid" and "cid \<noteq> []"
    and "client_secret = Some csecret" and "csecret \<noteq> []"
    and "sp_search (spotipy cid csecret) (''track:'' @ track_name @ '' artist:'' @ artist)
           = Inr (item # items)"
    and "sp_recommendations (spotipy cid csecret) [track_uri item] = Inr recs"
    and "recs \<noteq> []"
  shows "fst (spotify_rec spotipy track_name artist client_id client_secret s) =
           (if \<forall>t \<in> set recs. track_artists t \<noteq> []
            then Inr (join [newline] (map rendered_entry recs))
            else Inl IndexError)"
  using assms
  by (simp add: spotify_rec_def Let_def recommendation_list_eq)

theorem spotify_rec_success_text_witness:
  "fst (spotify_rec sample_spotipy ''Shape of You'' ''Ed Sheeran'' (Some ''id'') (Some ''secret'')
          initial_state) =
     Inr (''Perfect by Ed Sheeran'' @ [newline] @ ''Halo by Beyonce'' @ [newline]
          @ ''Perfect by Ed Sheeran'')"
  using spotify_rec_success_text
          [of "Some ''id''" "''id''" "Some ''secret''" "''secret''" sample_spotipy
              "''Shape of You''" "''Ed Sheeran''"
              "\<lparr>track_uri = ''seed'', track_title = ''Shape of You'',
                track_artists = [\<lparr>artist_name = ''Ed Sheeran''\<rparr>]\<rparr>" "[]"
              sample_tracks initial_state]
  by (simp add: sample_spotipy_def sample_tracks_def rendered_entry_def)

section \<open>Properties of cancellation\<close>

text \<open>
  C10. \<open>cancel_inference\<close> is a total function of the state that sets
  \<open>stop_inference\<close> to True and leaves every counter and the call log as they
  were; one call or any larger number of calls give the same state, whether or not
  a generation is running.
\<close>

theorem cancel_inference_idempotent:
  "cancel_inference s = s\<lparr>stop_inference := True\<rparr>
   \<and> stop_inference (cancel_inference s)
   \<and> cancel_inference (cancel_inference s) = cancel_inference s
   \<and> (cancel_inference ^^ Suc n) s = cancel_inference s"
proof -
  have twice: "\<And>t. cancel_inference (cancel_inference t) = cancel_inference t"
    by (simp add: cancel_inference_def)
  have "(cancel_inference ^^ Suc n) s = cancel_inference s"
  proof (induction n)
    case 0
    show ?case by simp
  next
    case (Suc n)
    have "(cancel_inference ^^ Suc (Suc n)) s = cancel_inference ((cancel_inference ^^ Suc n) s)"
      by simp
    also have "\<dots> = cancel_inference (cancel_inference s)"
      using Suc by simp
    also have "\<dots> = cancel_inference s"
      by (rule twice)
    finally show ?case .
  qed
  then show ?thesis
    by (simp add: cancel_inference_def)
qed

section \<open>Properties of the streaming loops\<close>

text \<open>
  C1. At a step of either loop at which \<open>stop_inference\<close> is true when the flag
  is checked, whatever the chunk is and whatever chunks would follow, the loop
  yields exactly one snapshot, whose response is the response so far with the
  cancellation marker appended (the chunk's token is not in it), adds one to
  \<open>CANCELLED_RECOMMENDATIONS\<close> and returns. This holds for the loop over the API
  stream and for the loop over the local pipeline's outputs.
\<close>

theorem cancellation_step:
  assumes "stop_inference (arrive cancel_at i s)"
  shows "api_stream history track_name artist cancel_at i response (Inr message_chunk # rest) s =
           ([snapshot history track_name artist (response @ cancel_marker)], Returned,
            (arrive cancel_at i s)\<lparr>CANCELLED_RECOMMENDATIONS :=
               CANCELLED_RECOMMENDATIONS (arrive cancel_at i s) + 1\<rparr>)
         \<and> local_stream history track_name artist cancel_at i response (out # outputs) s =
           ([snapshot history track_name artist (response @ cancel_marker)], Returned,
            (arrive cancel_at i s)\<lparr>CANCELLED_RECOMMENDATIONS :=
               CANCELLED_RECOMMENDATIONS (arrive cancel_at i s) + 1\<rparr>)"
  using assms by (simp add: inc_cancelled_def Let_def)

theorem cancellation_step_witness:
  "stop_inference (arrive (at_step 2) 2 initial_state)
   \<and> api_stream [] ''T'' ''A'' (at_step 2) 2 ''Header Great''
        [text_chunk (Some '' picks''), text_chunk (Some ''!'')] initial_state =
       ([[(Some ''T by A'', Some (''Header Great'' @ [newline, newline] @ ''*Inference cancelled.*''))]],
        Returned,
        initial_state\<lparr>CANCELLED_RECOMMENDATIONS := 1, stop_inference := True\<rparr>)
   \<and> local_stream [] ''T'' ''A'' (at_step 2) 2 ''Header Great''
        [\<lparr>generated_text = [\<lparr>role = ''assistant'', content = '' picks''\<rparr>]\<rparr>] initial_state =
       ([[(Some ''T by A'', Some (''Header Great'' @ [newline, newline] @ ''*Inference cancelled.*''))]],
        Returned,
        initial_state\<lparr>CANCELLED_RECOMMENDATIONS := 1, stop_inference := True\<rparr>)"
proof -
  have h: "stop_inference (arrive (at_step 2) 2 initial_state)"
    by (simp add: arrive_def at_step_def cancel_inference_def)
  show ?thesis
    using h cancellation_step [OF h, of "[]" "''T''" "''A''" "''Header Great''"
        "\<lparr>choices = [\<lparr>delta_content = Some '' picks''\<rparr>]\<rparr>" "[text_chunk (Some ''!'')]"
        "\<lparr>generated_text = [\<lparr>role = ''assistant'', content = '' picks''\<rparr>]\<rparr>" "[]"]
    by (simp add: text_chunk_def snapshot_def cancel_marker_def arrive_def at_step_def
                  cancel_inference_def initial_state_def)
qed

text \<open>
  C4. At a step of either loop at which \<open>stop_inference\<close> is false when the flag
  is checked: in the API loop a chunk whose first choice carries a non-empty text
  has that text appended to the response, a chunk whose first choice carries
  \<open>None\<close> or the empty string leaves the response as it is; in the local loop
  the content of the last generated message is appended (appending an empty
  content appends nothing). In each case exactly one snapshot, holding the
  response after the step, is yielded for the chunk, no counter changes, and the
  loop goes on with the next chunk.
\<close>

theorem chunk_step:
  assumes "\<not> stop_inference (arrive cancel_at i s)"
  shows "(choices message_chunk = c # cs \<and> delta_content c = Some t \<and> t \<noteq> [] \<longrightarrow>
            api_stream history track_name artist cancel_at i response (Inr message_chunk # rest) s =
              (case api_stream history track_name artist cancel_at (Suc i) (response @ t) rest
                      (arrive cancel_at i s) of
                 (snaps, e, s') \<Rightarrow> (snapshot history track_name artist (response @ t) # snaps, e, s')))
         \<and> (choices message_chunk = c # cs \<and> \<not> truthy (delta_content c) \<longrightarrow>
            api_stream history track_name artist cancel_at i response (Inr message_chunk # rest) s =
              (case api_stream history track_name artist cancel_at (Suc i) response rest
                      (arrive cancel_at i s) of
                 (snaps, e, s') \<Rightarrow> (snapshot history track_name artist response # snaps, e, s')))
         \<and> (generated_text out = ms @ [m] \<longrightarrow>
            local_stream history track_name artist cancel_at i response (out # outputs) s =
              (case local_stream history track_name artist cancel_at (Suc i) (response @ content m)
                      outputs (arrive cancel_at i s) of
                 (snaps, e, s') \<Rightarrow>
                   (snapshot history track_name artist (response @ content m) # snaps, e, s')))"
proof (intro conjI impI)
  assume a: "choices message_chunk = c # cs \<and> delta_content c = Some t \<and> t \<noteq> []"
  show "api_stream history track_name artist cancel_at i response (Inr message_chunk # rest) s =
          (case api_stream history track_name artist cancel_at (Suc i) (response @ t) rest
                  (arrive cancel_at i s) of
             (snaps, e, s') \<Rightarrow> (snapshot history track_name artist (response @ t) # snaps, e, s'))"
    using assms a by (simp add: Let_def)
next
  assume a: "choices message_chunk = c # cs \<and> \<not> truthy (delta_content c)"
  show "api_stream history track_name artist cancel_at i response (Inr message_chunk # rest) s =
          (case api_stream history track_name artist cancel_at (Suc i) response rest
                  (arrive cancel_at i s) of
             (snaps, e, s') \<Rightarrow> (snapshot history track_name artist response # snaps, e, s'))"
    using assms a by (simp add: Let_def)
next
  assume a: "generated_text out = ms @ [m]"
  then have ne: "generated_text out \<noteq> []" by simp
  then obtain m0 ms0 where c: "generated_text out = m0 # ms0"
    by (cases "generated_text out") auto
  have l: "last (m0 # ms0) = m"
    using a c by (metis last_snoc)
  show "local_stream history track_name artist cancel_at i response (out # outputs) s =
          (case local_stream history track_name artist cancel_at (Suc i) (response @ content m)
                  outputs (arrive cancel_at i s) of
             (snaps, e, s') \<Rightarrow>
               (snapshot history track_name artist (response @ content m) # snaps, e, s'))"
    using assms c l by (simp add: Let_def del: last.simps)
qed

theorem chunk_step_witness:
  "api_stream [] ''T'' ''A'' never 0 ''H:'' [text_chunk (Some ''Great''), text_chunk None] initial_state =
     ([[(Some ''T by A'', Some ''H:Great'')], [(Some ''T by A'', Some ''H:Great'')]],
      Returned, initial_state)
   \<and> api_stream [] ''T'' ''A'' never 0 ''H:'' [text_chunk (Some [])] initial_state =
     ([[(Some ''T by A'', Some ''H:'')]], Returned, initial_state)
   \<and> local_stream [] ''T'' ''A'' never 0 ''H:''
        [\<lparr>generated_text = [\<lparr>role = ''user'', content = ''q''\<rparr>,
                             \<lparr>role = ''assistant'', content = ''Great''\<rparr>]\<rparr>] initial_state =
     ([[(Some ''T by A'', Some ''H:Great'')]], Returned, initial_state)"
proof -
  have h0: "\<not> stop_inference (arrive never 0 initial_state)"
    by (simp add: arrive_def never_def initial_state_def)
  have h1: "\<not> stop_inference (arrive never (Suc 0) (arrive never 0 initial_state))"
    by (simp add: arrive_def never_def initial_state_def)
  have a0: "arrive never 0 initial_state = initial_state"
    by (simp add: arrive_def never_def)
  have a1: "arrive never (Suc 0) initial_state = initial_state"
    by (simp add: arrive_def never_def)
  note first = chunk_step [OF h0, of "\<lparr>choices = [\<lparr>delta_content = Some ''Great''\<rparr>]\<rparr>"
      "\<lparr>delta_content = Some ''Great''\<rparr>" "[]" "''Great''" "[]" "''T''" "''A''" "''H:''"
      "[text_chunk None]"
      "\<lparr>generated_text = [\<lparr>role = ''user'', content = ''q''\<rparr>,
                           \<lparr>role = ''assistant'', content = ''Great''\<rparr>]\<rparr>"
      "[\<lparr>role = ''user'', content = ''q''\<rparr>]" "\<lparr>role = ''assistant'', content = ''Great''\<rparr>" "[]"]
  note second = chunk_step [OF h1, of "\<lparr>choices = [\<lparr>delta_content = None\<rparr>]\<rparr>"
      "\<lparr>delta_content = None\<rparr>" "[]" "[]" "[]" "''T''" "''A''" "''H:Great''" "[]"]
  note third = chunk_step [OF h0, of "\<lparr>choices = [\<lparr>delta_content = Some []\<rparr>]\<rparr>"
      "\<lparr>delta_content = Some []\<rparr>" "[]" "[]" "[]" "''T''" "''A''" "''H:''" "[]"]
  show ?thesis
    using first second third
    by (simp add: text_chunk_def snapshot_def a0 a1)
qed

section \<open>Properties of the prompt\<close>

text \<open>
  C3. For every system prompt and history, the message list \<open>respond\<close> assembles
  is: first a system message carrying the system prompt, and it is the only
  system message; then, turn by turn in history order, a user message for each
  non-empty user side and an assistant message for each non-empty assistant side;
  last one user message whose content is the fixed sentence naming the seed track
  and artist, the text returned by the lookup (recommendations or failure text)
  and the request to tell more about the songs. This list, built from the text
  the lookup returned, is what \<open>respond\<close> hands to the streaming API and to the
  local pipeline.
\<close>

theorem build_messages_shape:
  "build_messages system_message turns track_name artist recommendations =
     \<lparr>role = ''system'', content = system_message\<rparr>
     # concat (map turn_messages turns)
     @ [\<lparr>role = ''user'',
         content = ''I like '' @ [apostrophe] @ track_name @ [apostrophe] @ '' by '' @ artist
           @ ''. Here are some Spotify recommendations:'' @ [newline] @ recommendations
           @ [newline, newline]
           @ ''Can you tell me more about these songs and suggest why I might enjoy them?''\<rparr>]
   \<and> filter (\<lambda>m. role m = ''system'')
        (build_messages system_message turns track_name artist recommendations)
      = [\<lparr>role = ''system'', content = system_message\<rparr>]
   \<and> length (build_messages system_message turns track_name artist recommendations)
      = 2 + length (filter truthy (map fst turns)) + length (filter truthy (map snd turns))
   \<and> (\<forall>answer s'.
        spotify_rec spotipy track_name artist client_id client_secret
          (inc_interactions (s\<lparr>stop_inference := False\<rparr>)) = (Inr answer, s') \<longrightarrow>
        respond spotipy chat_completion pipe cancel_at track_name artist history system_message
          max_tokens False client_id client_secret s
        = api_stream (case history of None \<Rightarrow> [] | Some h \<Rightarrow> h) track_name artist cancel_at 0
            (response_header track_name artist answer)
            (chat_completion
               (build_messages system_message (case history of None \<Rightarrow> [] | Some h \<Rightarrow> h)
                  track_name artist answer)
               max_tokens)
            s'
        \<and> (\<forall>p outputs.
              p (build_messages system_message (case history of None \<Rightarrow> [] | Some h \<Rightarrow> h)
                   track_name artist answer) max_tokens = Inr outputs \<longrightarrow>
              respond spotipy chat_completion (Some p) cancel_at track_name artist history
                system_message max_tokens True client_id client_secret s
              = local_stream (case history of None \<Rightarrow> [] | Some h \<Rightarrow> h) track_name artist
                  cancel_at 0 (response_header track_name artist answer) outputs s'))"
proof -
  have shape: "build_messages system_message turns track_name artist recommendations =
     \<lparr>role = ''system'', content = system_message\<rparr>
     # concat (map turn_messages turns)
     @ [\<lparr>role = ''user'', content = user_message track_name artist recommendations\<rparr>]"
    by (simp add: build_messages_def Let_def extend_messages_eq)
  have count: "length (concat (map turn_messages turns))
                 = length (filter truthy (map fst turns)) + length (filter truthy (map snd turns))"
    by (induction turns) (simp_all add: turn_messages_def length_side_message)
  have first: "build_messages system_message turns track_name artist recommendations =
     \<lparr>role = ''system'', content = system_message\<rparr>
     # concat (map turn_messages turns)
     @ [\<lparr>role = ''user'',
         content = ''I like '' @ [apostrophe] @ track_name @ [apostrophe] @ '' by '' @ artist
           @ ''. Here are some Spotify recommendations:'' @ [newline] @ recommendations
           @ [newline, newline]
           @ ''Can you tell me more about these songs and suggest why I might enjoy them?''\<rparr>]"
    by (simp add: shape user_message_def)
  have second: "filter (\<lambda>m. role m = ''system'')
        (build_messages system_message turns track_name artist recommendations)
      = [\<lparr>role = ''system'', content = system_message\<rparr>]"
    by (simp add: shape history_not_system)
  have third: "length (build_messages system_message turns track_name artist recommendations)
      = 2 + length (filter truthy (map fst turns)) + length (filter truthy (map snd turns))"
    by (simp add: shape count)
  have fourth: "\<forall>answer s'.
        spotify_rec spotipy track_name artist client_id client_secret
          (inc_interactions (s\<lparr>stop_inference := False\<rparr>)) = (Inr answer, s') \<longrightarrow>
        respond spotipy chat_completion pipe cancel_at track_name artist history system_message
          max_tokens False client_id client_secret s
        = api_stream (case history of None \<Rightarrow> [] | Some h \<Rightarrow> h) track_name artist cancel_at 0
            (response_header track_name artist answer)
            (chat_completion
               (build_messages system_message (case history of None \<Rightarrow> [] | Some h \<Rightarrow> h)
                  track_name artist answer)
               max_tokens)
            s'
        \<and> (\<forall>p outputs.
              p (build_messages system_message (case history of None \<Rightarrow> [] | Some h \<Rightarrow> h)
                   track_name artist answer) max_tokens = Inr outputs \<longrightarrow>
              respond spotipy chat_completion (Some p) cancel_at track_name artist history
                system_message max_tokens True client_id client_secret s
              = local_stream (case history of None \<Rightarrow> [] | Some h \<Rightarrow> h) track_name artist
                  cancel_at 0 (response_header track_name artist answer) outputs s')"
    by (simp add: respond_def Let_def)
  show ?thesis
    using first second third fourth by (intro conjI)
qed

theorem build_messages_shape_witness:
  "build_messages ''sys'' [(Some ''hi'', Some ''hello''), (None, Some ''more''), (Some [], None)]
       ''T'' ''A'' ''X by Y'' =
     [\<lparr>role = ''system'', content = ''sys''\<rparr>,
      \<lparr>role = ''user'', content = ''hi''\<rparr>,
      \<lparr>role = ''assistant'', content = ''hello''\<rparr>,
      \<lparr>role = ''assistant'', content = ''more''\<rparr>,
      \<lparr>role = ''user'',
        content = ''I like '' @ [apostrophe] @ ''T'' @ [apostrophe]
          @ '' by A. Here are some Spotify recommendations:'' @ [newline] @ ''X by Y''
          @ [newline, newline]
          @ ''Can you tell me more about these songs and suggest why I might enjoy them?''\<rparr>]
   \<and> respond sample_spotipy sample_chat_completion None never ''T'' ''A''
        (Some [(Some ''hi'', None)]) ''sys'' 512 False None None initial_state
     = api_stream [(Some ''hi'', None)] ''T'' ''A'' never 0
         (response_header ''T'' ''A'' ''Please provide Spotify API credentials.'')
         (sample_chat_completion
            (build_messages ''sys'' [(Some ''hi'', None)] ''T'' ''A''
               ''Please provide Spotify API credentials.'') 512)
         (inc_failed (inc_interactions (initial_state\<lparr>stop_inference := False\<rparr>)))"
proof -
  have look: "spotify_rec sample_spotipy ''T'' ''A'' None None
                (inc_interactions (initial_state\<lparr>stop_inference := False\<rparr>))
              = (Inr ''Please provide Spotify API credentials.'',
                 inc_failed (inc_interactions (initial_state\<lparr>stop_inference := False\<rparr>)))"
    by (simp add: spotify_rec_def)
  note t = build_messages_shape
      [where system_message = "''sys''"
         and turns = "[(Some ''hi'', Some ''hello''), (None, Some ''more''), (Some [], None)]"
         and track_name = "''T''" and artist = "''A''" and recommendations = "''X by Y''"
         and spotipy = sample_spotipy and client_id = None and client_secret = None
         and s = initial_state and chat_completion = sample_chat_completion and pipe = None
         and cancel_at = never and history = "Some [(Some ''hi'', None)]" and max_tokens = 512]
  have a: "build_messages ''sys'' [(Some ''hi'', Some ''hello''), (None, Some ''more''), (Some [], None)]
       ''T'' ''A'' ''X by Y'' =
     [\<lparr>role = ''system'', content = ''sys''\<rparr>,
      \<lparr>role = ''user'', content = ''hi''\<rparr>,
      \<lparr>role = ''assistant'', content = ''hello''\<rparr>,
      \<lparr>role = ''assistant'', content = ''more''\<rparr>,
      \<lparr>role = ''user'',
        content = ''I like '' @ [apostrophe] @ ''T'' @ [apostrophe]
          @ '' by A. Here are some Spotify recommendations:'' @ [newline] @ ''X by Y''
          @ [newline, newline]
          @ ''Can you tell me more about these songs and suggest why I might enjoy them?''\<rparr>]"
    using t [THEN conjunct1] by (simp add: turn_messages_def)
  have b: "respond sample_spotipy sample_chat_completion None never ''T'' ''A''
        (Some [(Some ''hi'', None)]) ''sys'' 512 False None None initial_state
     = api_stream [(Some ''hi'', None)] ''T'' ''A'' never 0
         (response_header ''T'' ''A'' ''Please provide Spotify API credentials.'')
         (sample_chat_completion
            (build_messages ''sys'' [(Some ''hi'', None)] ''T'' ''A''
               ''Please provide Spotify API credentials.'') 512)
         (inc_failed (inc_interactions (initial_state\<lparr>stop_inference := False\<rparr>)))"
    using t [THEN conjunct2, THEN conjunct2, THEN conjunct2, rule_format, OF look, THEN conjunct1]
    by simp
  show ?thesis
    using a b by (rule conjI)
qed

section \<open>Example runs\<close>

lemma respond_local_example:
  "respond sample_spotipy sample_chat_completion (Some sample_pipe) never ''T'' ''A'' None ''sys''
     512 True None None initial_state =
   ([[(Some ''T by A'',
       Some (response_header ''T'' ''A'' ''Please provide Spotify API credentials.''
             @ ''Great picks!''))]],
    Returned,
    initial_state\<lparr>USER_INTERACTIONS := 1, FAILED_RECOMMENDATIONS := 1\<rparr>)"
  by (simp add: respond_def spotify_rec_def Let_def sample_pipe_def build_messages_def
                arrive_def never_def snapshot_def inc_failed_def inc_interactions_def
                initial_state_def)

lemma respond_lookup_raises_example:
  "respond failing_spotipy sample_chat_completion None never ''T'' ''A'' None ''sys''
     512 False (Some ''id'') (Some ''secret'') initial_state =
   ([], Raised ProviderError,
    initial_state\<lparr>USER_INTERACTIONS := 1,
      spotify_calls := [ClientConstructed ''id'' ''secret'', SearchCall ''track:T artist:A'']\<rparr>)"
  by (simp add: respond_def spotify_rec_def Let_def failing_spotipy_def log_call_def
                inc_interactions_def initial_state_def)

section \<open>Properties of respond\<close>

text \<open>
  C7 (amended). When \<open>use_local_model\<close> is selected and the name \<open>pipe\<close> is not
  defined, a call of \<open>respond\<close> whose lookup returned a text yields exactly one
  snapshot, the history followed by the turn whose response is the header with
  the lookup's text followed by the notice "*Error: Local model not configured.
  ...*", adds one to \<open>FAILED_RECOMMENDATIONS\<close> (beyond what the lookup did) and
  returns. A call whose lookup ends with an exception yields nothing, leaves the
  failure counter as the lookup left it and ends with that exception.
\<close>

theorem respond_local_not_configured:
  "(\<forall>recommendations s'.
      spotify_rec spotipy track_name artist client_id client_secret
        (inc_interactions (s\<lparr>stop_inference := False\<rparr>)) = (Inr recommendations, s') \<longrightarrow>
      respond spotipy chat_completion None cancel_at track_name artist history system_message
        max_tokens True client_id client_secret s =
      ([(case history of None \<Rightarrow> [] | Some h \<Rightarrow> h)
        @ [(Some (track_name @ '' by '' @ artist),
            Some (''**Spotify Recommendations based on '' @ [apostrophe] @ track_name
                  @ [apostrophe] @ '' by '' @ artist @ '':**'' @ [newline] @ recommendations
                  @ [newline, newline]
                  @ ''*Error: Local model not configured. Please uncomment the torch/transformers imports and pipeline initialization in app.py, or uncheck 'Use Local Model'.*''))]],
       Returned,
       s'\<lparr>FAILED_RECOMMENDATIONS := FAILED_RECOMMENDATIONS s' + 1\<rparr>))
   \<and> (\<forall>e s'.
      spotify_rec spotipy track_name artist client_id client_secret
        (inc_interactions (s\<lparr>stop_inference := False\<rparr>)) = (Inl e, s') \<longrightarrow>
      respond spotipy chat_completion None cancel_at track_name artist history system_message
        max_tokens True client_id client_secret s = ([], Raised e, s'))"
  by (simp add: respond_def Let_def local_not_configured_def inc_failed_def snapshot_def
                response_header_def not_configured_notice_def)

theorem respond_local_not_configured_witness:
  "respond sample_spotipy sample_chat_completion None never ''T'' ''A'' None ''sys'' 512 True
      None (Some ''secret'') initial_state =
     ([[(Some ''T by A'',
         Some (''**Spotify Recommendations based on '' @ [CHR 0x27] @ ''T'' @ [CHR 0x27]
               @ '' by A:**'' @ [CHR 0x0A] @ ''Please provide Spotify API credentials.''
               @ [CHR 0x0A, CHR 0x0A]
               @ ''*Error: Local model not configured. Please uncomment the torch/transformers imports and pipeline initialization in app.py, or uncheck 'Use Local Model'.*''))]],
      Returned,
      initial_state\<lparr>USER_INTERACTIONS := 1, FAILED_RECOMMENDATIONS := 2\<rparr>)"
proof -
  have h: "spotify_rec sample_spotipy ''T'' ''A'' None (Some ''secret'')
             (inc_interactions (initial_state\<lparr>stop_inference := False\<rparr>))
           = (Inr ''Please provide Spotify API credentials.'',
              initial_state\<lparr>USER_INTERACTIONS := 1, FAILED_RECOMMENDATIONS := 1\<rparr>)"
    by (simp add: spotify_rec_def inc_failed_def inc_interactions_def initial_state_def)
  show ?thesis
    using respond_local_not_configured
            [of sample_spotipy "''T''" "''A''" None "Some ''secret''" initial_state
                sample_chat_completion never None "''sys''" 512,
             THEN conjunct1, rule_format, OF h]
    by (simp add: initial_state_def apostrophe_def newline_def)
qed

theorem respond_local_not_configured_counterexample:
  "respond failing_spotipy sample_chat_completion None never ''T'' ''A'' None ''sys'' 512 True
      (Some ''id'') (Some ''secret'') initial_state =
     ([], Raised ProviderError,
      initial_state\<lparr>USER_INTERACTIONS := 1,
        spotify_calls := [ClientConstructed ''id'' ''secret'', SearchCall ''track:T artist:A'']\<rparr>)
   \<and> FAILED_RECOMMENDATIONS
        (snd (snd (respond failing_spotipy sample_chat_completion None never ''T'' ''A'' None
                     ''sys'' 512 True (Some ''id'') (Some ''secret'') initial_state)))
      = FAILED_RECOMMENDATIONS initial_state"
  by (simp add: respond_def spotify_rec_def Let_def failing_spotipy_def log_call_def
                inc_interactions_def initial_state_def)



section \<open>Properties of the counters\<close>

text \<open>
  C8 (amended). A call of \<open>spotify_rec\<close> that returns a text changes exactly one
  of the success and failure counters, by exactly one: the failure counter when
  the credentials are missing, no track matches or the recommendation set is empty,
  the success counter otherwise. A call that ends with an exception (the provider
  raises, or a recommended track lists no artist) changes neither. A call of
  \<open>respond\<close> adds exactly one to \<open>USER_INTERACTIONS\<close>, on every path: also when
  the lookup raises and when nothing is streamed, so the increment precedes the
  lookup and the streaming.
\<close>

theorem counters_per_call:
  "(\<forall>answer s'.
      spotify_rec spotipy track_name artist client_id client_secret s = (Inr answer, s') \<longrightarrow>
      (if lookup_failure spotipy track_name artist client_id client_secret
       then FAILED_RECOMMENDATIONS s' = FAILED_RECOMMENDATIONS s + 1
            \<and> SUCCESSFUL_RECOMMENDATIONS s' = SUCCESSFUL_RECOMMENDATIONS s
       else SUCCESSFUL_RECOMMENDATIONS s' = SUCCESSFUL_RECOMMENDATIONS s + 1
            \<and> FAILED_RECOMMENDATIONS s' = FAILED_RECOMMENDATIONS s))
   \<and> (\<forall>e s'.
      spotify_rec spotipy track_name artist client_id client_secret s = (Inl e, s') \<longrightarrow>
      SUCCESSFUL_RECOMMENDATIONS s' = SUCCESSFUL_RECOMMENDATIONS s
      \<and> FAILED_RECOMMENDATIONS s' = FAILED_RECOMMENDATIONS s)
   \<and> USER_INTERACTIONS
        (snd (snd (respond spotipy chat_completion pipe cancel_at track_name artist history
                     system_message max_tokens use_local_model client_id client_secret s)))
      = USER_INTERACTIONS s + 1"
proof -
  have returned: "\<forall>answer s'.
      spotify_rec spotipy track_name artist client_id client_secret s = (Inr answer, s') \<longrightarrow>
      (if lookup_failure spotipy track_name artist client_id client_secret
       then FAILED_RECOMMENDATIONS s' = FAILED_RECOMMENDATIONS s + 1
            \<and> SUCCESSFUL_RECOMMENDATIONS s' = SUCCESSFUL_RECOMMENDATIONS s
       else SUCCESSFUL_RECOMMENDATIONS s' = SUCCESSFUL_RECOMMENDATIONS s + 1
            \<and> FAILED_RECOMMENDATIONS s' = FAILED_RECOMMENDATIONS s)"
    by (cases client_id; cases client_secret)
       (auto simp: spotify_rec_def lookup_failure_def Let_def log_call_def inc_failed_def
                   inc_successful_def inc_processed_def
             split: if_splits sum.splits list.splits)
  have raised: "\<forall>e s'.
      spotify_rec spotipy track_name artist client_id client_secret s = (Inl e, s') \<longrightarrow>
      SUCCESSFUL_RECOMMENDATIONS s' = SUCCESSFUL_RECOMMENDATIONS s
      \<and> FAILED_RECOMMENDATIONS s' = FAILED_RECOMMENDATIONS s"
    by (cases client_id; cases client_secret)
       (auto simp: spotify_rec_def Let_def log_call_def inc_failed_def
                   inc_successful_def inc_processed_def
             split: if_splits sum.splits list.splits)
  define s2 where "s2 = inc_interactions (s\<lparr>stop_inference := False\<rparr>)"
  define hist where "hist = (case history of None \<Rightarrow> [] | Some h \<Rightarrow> h)"
  have start: "USER_INTERACTIONS s2 = USER_INTERACTIONS s + 1"
    by (simp add: s2_def inc_interactions_def)
  obtain r s3 where look: "spotify_rec spotipy track_name artist client_id client_secret s2 = (r, s3)"
    by (cases "spotify_rec spotipy track_name artist client_id client_secret s2") auto
  have s3: "USER_INTERACTIONS s3 = USER_INTERACTIONS s + 1"
    using spotify_rec_interactions [of spotipy track_name artist client_id client_secret s2]
          look start
    by simp
  have handler: "\<And>response. USER_INTERACTIONS
                    (snd (snd (local_not_configured hist track_name artist response s3)))
                  = USER_INTERACTIONS s3"
    by (simp add: local_not_configured_def Let_def inc_failed_def)
  have interactions: "USER_INTERACTIONS
          (snd (snd (respond spotipy chat_completion pipe cancel_at track_name artist history
                       system_message max_tokens use_local_model client_id client_secret s)))
        = USER_INTERACTIONS s + 1"
    using look s3
    by (simp add: respond_def Let_def s2_def [symmetric] hist_def [symmetric] handler
                  api_stream_interactions local_stream_interactions
             split: sum.splits option.splits)
  show ?thesis
    using returned raised interactions by (intro conjI)
qed

theorem counters_per_call_witness:
  "spotify_rec sample_spotipy ''T'' ''A'' (Some ''id'') (Some ''secret'') initial_state
     = (Inr (''Perfect by Ed Sheeran'' @ [newline] @ ''Halo by Beyonce'' @ [newline]
             @ ''Perfect by Ed Sheeran''),
        initial_state\<lparr>RECOMMENDATIONS_PROCESSED := 1, SUCCESSFUL_RECOMMENDATIONS := 1,
          spotify_calls := [ClientConstructed ''id'' ''secret'', SearchCall ''track:T artist:A'',
                            RecommendationsCall [''seed'']]\<rparr>)
   \<and> lookup_failure sample_spotipy ''T'' ''A'' (Some ''id'') (Some ''secret'') = False
   \<and> SUCCESSFUL_RECOMMENDATIONS
        (snd (spotify_rec sample_spotipy ''T'' ''A'' (Some ''id'') (Some ''secret'') initial_state)) = 1
   \<and> FAILED_RECOMMENDATIONS
        (snd (spotify_rec sample_spotipy ''T'' ''A'' (Some ''id'') (Some ''secret'') initial_state)) = 0
   \<and> lookup_failure no_match_spotipy ''T'' ''A'' (Some ''id'') (Some ''secret'') = True
   \<and> FAILED_RECOMMENDATIONS
        (snd (spotify_rec no_match_spotipy ''T'' ''A'' (Some ''id'') (Some ''secret'') initial_state)) = 1
   \<and> SUCCESSFUL_RECOMMENDATIONS
        (snd (spotify_rec no_match_spotipy ''T'' ''A'' (Some ''id'') (Some ''secret'') initial_state)) = 0
   \<and> USER_INTERACTIONS
        (snd (snd (respond failing_spotipy sample_chat_completion None never ''T'' ''A'' None ''sys''
                     512 False (Some ''id'') (Some ''secret'') initial_state))) = 1"
proof -
  let ?ok = "spotify_rec sample_spotipy ''T'' ''A'' (Some ''id'') (Some ''secret'') initial_state"
  let ?no = "spotify_rec no_match_spotipy ''T'' ''A'' (Some ''id'') (Some ''secret'') initial_state"
  have ok: "?ok = (Inr (''Perfect by Ed Sheeran'' @ [newline] @ ''Halo by Beyonce'' @ [newline]
                        @ ''Perfect by Ed Sheeran''),
        initial_state\<lparr>RECOMMENDATIONS_PROCESSED := 1, SUCCESSFUL_RECOMMENDATIONS := 1,
          spotify_calls := [ClientConstructed ''id'' ''secret'', SearchCall ''track:T artist:A'',
                            RecommendationsCall [''seed'']]\<rparr>)"
    by (simp add: spotify_rec_def Let_def sample_spotipy_def sample_tracks_def log_call_def
                  inc_successful_def inc_processed_def initial_state_def)
  have no: "?no = (Inr ''No tracks found for the given track name and artist.'', snd ?no)"
    by (simp add: spotify_rec_def Let_def no_match_spotipy_def)
  have f_ok: "lookup_failure sample_spotipy ''T'' ''A'' (Some ''id'') (Some ''secret'') = False"
    by (simp add: lookup_failure_def sample_spotipy_def sample_tracks_def)
  have f_no: "lookup_failure no_match_spotipy ''T'' ''A'' (Some ''id'') (Some ''secret'') = True"
    by (simp add: lookup_failure_def no_match_spotipy_def)
  note a = counters_per_call [of sample_spotipy "''T''" "''A''" "Some ''id''" "Some ''secret''"
      initial_state sample_chat_completion None never None "''sys''" 512 False]
  note b = counters_per_call [of no_match_spotipy "''T''" "''A''" "Some ''id''" "Some ''secret''"
      initial_state sample_chat_completion None never None "''sys''" 512 False]
  note c = counters_per_call [of failing_spotipy "''T''" "''A''" "Some ''id''" "Some ''secret''"
      initial_state sample_chat_completion None never None "''sys''" 512 False]
  have zero: "SUCCESSFUL_RECOMMENDATIONS initial_state = 0" "FAILED_RECOMMENDATIONS initial_state = 0"
    "USER_INTERACTIONS initial_state = 0"
    by (simp_all add: initial_state_def)
  have ok': "?ok = (Inr (''Perfect by Ed Sheeran'' @ [newline] @ ''Halo by Beyonce'' @ [newline]
                         @ ''Perfect by Ed Sheeran''), snd ?ok)"
    using ok by simp
  have a': "SUCCESSFUL_RECOMMENDATIONS (snd ?ok) = 1 \<and> FAILED_RECOMMENDATIONS (snd ?ok) = 0"
    using a [THEN conjunct1, rule_format, OF ok'] f_ok
    by (simp add: zero)
  have b': "FAILED_RECOMMENDATIONS (snd ?no) = 1 \<and> SUCCESSFUL_RECOMMENDATIONS (snd ?no) = 0"
    using b [THEN conjunct1, rule_format, OF no] f_no
    by (simp add: zero)
  have c': "USER_INTERACTIONS
        (snd (snd (respond failing_spotipy sample_chat_completion None never ''T'' ''A'' None ''sys''
                     512 False (Some ''id'') (Some ''secret'') initial_state))) = 1"
    using c [THEN conjunct2, THEN conjunct2] by (simp add: zero)
  show ?thesis
    using ok f_ok f_no a' b' c' by simp
qed

theorem counters_per_call_counterexample:
  "spotify_rec failing_spotipy ''T'' ''A'' (Some ''id'') (Some ''secret'') initial_state =
     (Inl ProviderError,
      initial_state\<lparr>spotify_calls :=
        [ClientConstructed ''id'' ''secret'', SearchCall ''track:T artist:A'']\<rparr>)
   \<and> SUCCESSFUL_RECOMMENDATIONS
        (snd (spotify_rec failing_spotipy ''T'' ''A'' (Some ''id'') (Some ''secret'') initial_state))
      = SUCCESSFUL_RECOMMENDATIONS initial_state
   \<and> FAILED_RECOMMENDATIONS
        (snd (spotify_rec failing_spotipy ''T'' ''A'' (Some ''id'') (Some ''secret'') initial_state))
      = FAILED_RECOMMENDATIONS initial_state
   \<and> spotify_rec no_artist_spotipy ''T'' ''A'' (Some ''id'') (Some ''secret'') initial_state =
     (Inl IndexError,
      initial_state\<lparr>spotify_calls :=
        [ClientConstructed ''id'' ''secret'', SearchCall ''track:T artist:A'',
         RecommendationsCall [''seed'']]\<rparr>)
   \<and> lookup_failure no_artist_spotipy ''T'' ''A'' (Some ''id'') (Some ''secret'') = False
   \<and> SUCCESSFUL_RECOMMENDATIONS
        (snd (spotify_rec no_artist_spotipy ''T'' ''A'' (Some ''id'') (Some ''secret'') initial_state))
      = SUCCESSFUL_RECOMMENDATIONS initial_state
   \<and> FAILED_RECOMMENDATIONS
        (snd (spotify_rec no_artist_spotipy ''T'' ''A'' (Some ''id'') (Some ''secret'') initial_state))
      = FAILED_RECOMMENDATIONS initial_state"
  by (simp add: spotify_rec_def lookup_failure_def Let_def failing_spotipy_def
                no_artist_spotipy_def log_call_def initial_state_def)

text \<open>
  C9. \<open>RECOMMENDATIONS_PROCESSED\<close> moves in lockstep with
  \<open>SUCCESSFUL_RECOMMENDATIONS\<close>: a call of \<open>spotify_rec\<close> either adds one to both
  or changes neither, and on the three failure paths it leaves
  \<open>RECOMMENDATIONS_PROCESSED\<close> as it was. Hence after any sequence of lookups
  started from the freshly loaded module the two counters are equal, and the
  requests-processed counter is at most (and, as soon as one lookup fails, less
  than) the number of requests.
\<close>

theorem processed_counts_successes:
  "((RECOMMENDATIONS_PROCESSED (snd (spotify_rec spotipy track_name artist client_id client_secret s))
       = RECOMMENDATIONS_PROCESSED s + 1
     \<and> SUCCESSFUL_RECOMMENDATIONS (snd (spotify_rec spotipy track_name artist client_id client_secret s))
       = SUCCESSFUL_RECOMMENDATIONS s + 1)
    \<or> (RECOMMENDATIONS_PROCESSED (snd (spotify_rec spotipy track_name artist client_id client_secret s))
       = RECOMMENDATIONS_PROCESSED s
     \<and> SUCCESSFUL_RECOMMENDATIONS (snd (spotify_rec spotipy track_name artist client_id client_secret s))
       = SUCCESSFUL_RECOMMENDATIONS s))
   \<and> (lookup_failure spotipy track_name artist client_id client_secret \<longrightarrow>
        RECOMMENDATIONS_PROCESSED (snd (spotify_rec spotipy track_name artist client_id client_secret s))
          = RECOMMENDATIONS_PROCESSED s)
   \<and> RECOMMENDATIONS_PROCESSED (run_lookups calls initial_state)
        = SUCCESSFUL_RECOMMENDATIONS (run_lookups calls initial_state)
   \<and> RECOMMENDATIONS_PROCESSED (run_lookups calls initial_state) \<le> length calls"
proof (intro conjI impI)
  show "(RECOMMENDATIONS_PROCESSED (snd (spotify_rec spotipy track_name artist client_id client_secret s))
       = RECOMMENDATIONS_PROCESSED s + 1
     \<and> SUCCESSFUL_RECOMMENDATIONS (snd (spotify_rec spotipy track_name artist client_id client_secret s))
       = SUCCESSFUL_RECOMMENDATIONS s + 1)
    \<or> (RECOMMENDATIONS_PROCESSED (snd (spotify_rec spotipy track_name artist client_id client_secret s))
       = RECOMMENDATIONS_PROCESSED s
     \<and> SUCCESSFUL_RECOMMENDATIONS (snd (spotify_rec spotipy track_name artist client_id client_secret s))
       = SUCCESSFUL_RECOMMENDATIONS s)"
    by (rule spotify_rec_lockstep)
next
  assume "lookup_failure spotipy track_name artist client_id client_secret"
  then show "RECOMMENDATIONS_PROCESSED
               (snd (spotify_rec spotipy track_name artist client_id client_secret s))
             = RECOMMENDATIONS_PROCESSED s"
    by (cases client_id; cases client_secret)
       (auto simp: spotify_rec_def lookup_failure_def Let_def log_call_def inc_failed_def
             split: if_splits sum.splits list.splits)
next
  show "RECOMMENDATIONS_PROCESSED (run_lookups calls initial_state)
          = SUCCESSFUL_RECOMMENDATIONS (run_lookups calls initial_state)"
    by (rule run_lookups_lockstep) (simp add: initial_state_def)
next
  show "RECOMMENDATIONS_PROCESSED (run_lookups calls initial_state) \<le> length calls"
    using run_lookups_bound [of calls initial_state] by (simp add: initial_state_def)
qed

theorem processed_counts_successes_witness:
  "lookup_failure no_match_spotipy ''T'' ''A'' (Some ''id'') (Some ''secret'') = True
   \<and> RECOMMENDATIONS_PROCESSED
        (snd (spotify_rec no_match_spotipy ''T'' ''A'' (Some ''id'') (Some ''secret'') initial_state))
       = 0
   \<and> RECOMMENDATIONS_PROCESSED
        (run_lookups [(sample_spotipy, ''T'', ''A'', Some ''id'', Some ''secret''),
                      (sample_spotipy, ''T'', ''A'', None, Some ''secret''),
                      (no_match_spotipy, ''T'', ''A'', Some ''id'', Some ''secret'')] initial_state)
       = 1
   \<and> SUCCESSFUL_RECOMMENDATIONS
        (run_lookups [(sample_spotipy, ''T'', ''A'', Some ''id'', Some ''secret''),
                      (sample_spotipy, ''T'', ''A'', None, Some ''secret''),
                      (no_match_spotipy, ''T'', ''A'', Some ''id'', Some ''secret'')] initial_state)
       = 1
   \<and> FAILED_RECOMMENDATIONS
        (run_lookups [(sample_spotipy, ''T'', ''A'', Some ''id'', Some ''secret''),
                      (sample_spotipy, ''T'', ''A'', None, Some ''secret''),
                      (no_match_spotipy, ''T'', ''A'', Some ''id'', Some ''secret'')] initial_state)
       = 2"
proof -
  let ?calls = "[(sample_spotipy, ''T'', ''A'', Some ''id'', Some ''secret''),
                 (sample_spotipy, ''T'', ''A'', None, Some ''secret''),
                 (no_match_spotipy, ''T'', ''A'', Some ''id'', Some ''secret'')]"
  have f_no: "lookup_failure no_match_spotipy ''T'' ''A'' (Some ''id'') (Some ''secret'') = True"
    by (simp add: lookup_failure_def no_match_spotipy_def)
  note t = processed_counts_successes
             [of no_match_spotipy "''T''" "''A''" "Some ''id''" "Some ''secret''" initial_state ?calls]
  have p0: "RECOMMENDATIONS_PROCESSED
        (snd (spotify_rec no_match_spotipy ''T'' ''A'' (Some ''id'') (Some ''secret'') initial_state))
       = 0"
    using t f_no by (simp add: initial_state_def)
  have succ: "SUCCESSFUL_RECOMMENDATIONS (run_lookups ?calls initial_state) = 1"
    by (simp add: spotify_rec_def Let_def sample_spotipy_def no_match_spotipy_def sample_tracks_def
                  log_call_def inc_successful_def inc_processed_def inc_failed_def initial_state_def)
  have failed: "FAILED_RECOMMENDATIONS (run_lookups ?calls initial_state) = 2"
    by (simp add: spotify_rec_def Let_def sample_spotipy_def no_match_spotipy_def sample_tracks_def
                  log_call_def inc_successful_def inc_processed_def inc_failed_def initial_state_def)
  have proc: "RECOMMENDATIONS_PROCESSED (run_lookups ?calls initial_state) = 1"
    using t succ by simp
  show ?thesis
    using f_no p0 succ failed proc by simp
qed

end
